theory Spec2Isabelle
  imports Complex_Main "HOL-Library.Monad_Syntax" "HOL-Library.Multiset"
    "HOL-Library.Char_ord" "HOL-Library.List_Lexorder"
begin

section \<open>Meta commands: result codes, source locations, tokens\<close>

text \<open>
  The meta-command tree of \<^verbatim>\<open>meta.cpp\<close> parses a directive that has already been cut
  into tokens (\<^verbatim>\<open>QStringList argv\<close>), starting at \<^verbatim>\<open>index\<close>. Every leaf keeps two
  value slots \<^verbatim>\<open>_value[2]\<close> and two source locations \<^verbatim>\<open>_here[2]\<close>, indexed by the
  flag \<^verbatim>\<open>pushed\<close>. A parse returns a result code \<^verbatim>\<open>Rc\<close>.

  \<^verbatim>\<open>QList::operator[]\<close> does not check its index: a read past the end of \<^verbatim>\<open>argv\<close> has no
  defined result. The model makes that read a value of its own: every parse returns an
  \<open>option\<close>, and \<open>None\<close> is exactly "the code read a token outside \<^verbatim>\<open>argv\<close>".
\<close>

datatype Rc =
    FailureRc | RangeErrorRc | OkRc
  | RotStepRc | BufferStoreRc | BufferLoadRc | PliBeginSub1Rc | PliBeginSub2Rc | CalloutBeginRc
  | ActionRc nat

record Where =
  modelName :: string
  lineNumber :: int

definition tokenAt :: "string list \<Rightarrow> int \<Rightarrow> string option" where
  "tokenAt argv i = (if 0 \<le> i \<and> i < int (length argv) then Some (argv ! nat i) else None)"

text \<open>
  \<^verbatim>\<open>QString::toInt(&ok)\<close> in base 10, on a token without surrounding white space: an optional
  sign, then at least one decimal digit, the value inside the range of a 32-bit \<^verbatim>\<open>int\<close>.
  \<open>None\<close> is \<^verbatim>\<open>ok == false\<close>.
\<close>

definition isDigit :: "char \<Rightarrow> bool" where
  "isDigit c = ((48::nat) \<le> of_char c \<and> of_char c \<le> (57::nat))"

definition digitVal :: "char \<Rightarrow> nat" where
  "digitVal c = of_char c - 48"

fun decVal :: "nat \<Rightarrow> string \<Rightarrow> nat" where
  "decVal acc [] = acc"
| "decVal acc (c # cs) = decVal (acc * 10 + digitVal c) cs"

definition toInt :: "string \<Rightarrow> int option" where
  "toInt s =
     (let neg = (s \<noteq> [] \<and> hd s = CHR ''-'');
          ds = (if s \<noteq> [] \<and> (hd s = CHR ''-'' \<or> hd s = CHR ''+'') then tl s else s)
      in if ds = [] \<or> \<not> list_all isDigit ds then None
         else let v = (if neg then - int (decVal 0 ds) else int (decVal 0 ds))
              in if - 2147483648 \<le> v \<and> v \<le> 2147483647 then Some v else None)"

text \<open>
  What the leaves use and this file does not define: \<^verbatim>\<open>QString::toFloat\<close> (the type \<open>'f\<close>
  stands for \<^verbatim>\<open>float\<close>), the conversion of an \<^verbatim>\<open>int\<close> to \<^verbatim>\<open>float\<close>, the
  comparison \<^verbatim>\<open><\<close> of two \<^verbatim>\<open>float\<close>s, the helper \<^verbatim>\<open>setBorderLine\<close> of \<^verbatim>\<open>meta.h\<close> and
  \<^verbatim>\<open>QString::contains(QRegExp)\<close> for the keys of a branch (pattern first, then the
  token). They are parameters, with the flag \<^verbatim>\<open>AbstractMeta::reportErrors\<close>.
\<close>

record 'f Env =
  toFloat :: "string \<Rightarrow> 'f option"
  ofInt :: "int \<Rightarrow> 'f"
  flt :: "'f \<Rightarrow> 'f \<Rightarrow> bool"
  setBorderLine :: "string \<Rightarrow> int"
  rxContains :: "string \<Rightarrow> string \<Rightarrow> bool"
  reportErrors :: bool

text \<open>
  \<^verbatim>\<open>LeafMeta\<close>: the flags \<^verbatim>\<open>pushed\<close> and \<^verbatim>\<open>global\<close>, the two value slots and the two
  locations. \<^verbatim>\<open>_value[pushed] = v\<close> is \<open>setValue\<close>, \<^verbatim>\<open>_here[pushed] = here\<close> is
  \<open>setHere\<close>, \<^verbatim>\<open>value()\<close> reads \<^verbatim>\<open>_value[pushed]\<close>.
\<close>

record 'v LeafMeta =
  preamble :: string
  pushed :: bool
  global :: bool
  value0 :: 'v
  value1 :: 'v
  here0 :: Where
  here1 :: Where

definition valueOf :: "('v, 'x) LeafMeta_scheme \<Rightarrow> 'v" where
  "valueOf m = (if pushed m then value1 m else value0 m)"

definition setValue :: "'v \<Rightarrow> ('v, 'x) LeafMeta_scheme \<Rightarrow> ('v, 'x) LeafMeta_scheme" where
  "setValue v m = (if pushed m then m\<lparr>value1 := v\<rparr> else m\<lparr>value0 := v\<rparr>)"

definition setHere :: "Where \<Rightarrow> ('v, 'x) LeafMeta_scheme \<Rightarrow> ('v, 'x) LeafMeta_scheme" where
  "setHere h m = (if pushed m then m\<lparr>here1 := h\<rparr> else m\<lparr>here0 := h\<rparr>)"

text \<open>
  The diagnostics of a failed parse (\<^verbatim>\<open>QMessageBox::warning\<close>) are not modelled, but the
  tokens they read are: with \<^verbatim>\<open>reportErrors\<close> set, \<^verbatim>\<open>IntMeta::parse\<close> formats
  \<^verbatim>\<open>argv[index]\<close> into its message.
\<close>

definition report :: "'f Env \<Rightarrow> string list \<Rightarrow> int list \<Rightarrow> 'a \<Rightarrow> 'a option" where
  "report env argv is r =
     (if reportErrors env \<and> \<not> list_all (\<lambda>i. tokenAt argv i \<noteq> None) is then None else Some r)"

subsection \<open>IntMeta, FloatMeta, FloatPairMeta\<close>

record IntMeta = "int LeafMeta" +
  imin :: int
  imax :: int
  irc :: Rc

definition IntMeta_parse ::
  "'f Env \<Rightarrow> string list \<Rightarrow> int \<Rightarrow> Where \<Rightarrow> IntMeta \<Rightarrow> (Rc \<times> IntMeta) option" where
  "IntMeta_parse env argv index here m =
     (if index = int (length argv) - 1 then
        do {
          tok \<leftarrow> tokenAt argv index;
          case toInt tok of
            Some v \<Rightarrow>
              if v < imin m \<or> v > imax m then Some (RangeErrorRc, m)
              else Some (irc m, setHere here (setValue v m))
          | None \<Rightarrow> report env argv [index] (FailureRc, m)
        }
      else report env argv [index] (FailureRc, m))"

text \<open>
  \<^verbatim>\<open>LeafMeta::format\<close> puts the preamble and the scope marker before the suffix that
  the leaf built. \<^verbatim>\<open>IntMeta::format\<close> declares an empty \<^verbatim>\<open>QString foo\<close>, calls
  \<^verbatim>\<open>foo.arg(_value[pushed],0,base)\<close> and drops what \<^verbatim>\<open>arg\<close> returns: the suffix handed
  to \<^verbatim>\<open>LeafMeta::format\<close> is the empty \<^verbatim>\<open>foo\<close>.
\<close>

definition LeafMeta_format ::
  "bool \<Rightarrow> bool \<Rightarrow> string \<Rightarrow> ('v, 'x) LeafMeta_scheme \<Rightarrow> string" where
  "LeafMeta_format local glob suffix m =
     preamble m @ (if local then ''LOCAL '' else if glob then ''GLOBAL '' else []) @ suffix"

definition IntMeta_format :: "bool \<Rightarrow> bool \<Rightarrow> IntMeta \<Rightarrow> string" where
  "IntMeta_format local glob m = (let foo = [] in LeafMeta_format local glob foo m)"

record 'f FloatMeta = "'f LeafMeta" +
  fmin :: 'f
  fmax :: 'f
  frc :: Rc

definition FloatMeta_parse ::
  "'f Env \<Rightarrow> string list \<Rightarrow> int \<Rightarrow> Where \<Rightarrow> 'f FloatMeta \<Rightarrow> (Rc \<times> 'f FloatMeta) option" where
  "FloatMeta_parse env argv index here m =
     (let size = int (length argv) in
      if index = size - 1 then
        do {
          tok \<leftarrow> tokenAt argv index;
          case toFloat env tok of
            Some v \<Rightarrow>
              if flt env v (fmin m) \<or> flt env (fmax m) v then Some (RangeErrorRc, m)
              else Some (frc m, setHere here (setValue v m))
          | None \<Rightarrow> report env argv [index] (FailureRc, m)
        }
      else report env argv [index] (FailureRc, m))"

record 'f FloatPairMeta = "('f \<times> 'f) LeafMeta" +
  pmin :: 'f
  pmax :: 'f
  prc :: Rc

definition FloatPairMeta_parse ::
  "'f Env \<Rightarrow> string list \<Rightarrow> int \<Rightarrow> Where \<Rightarrow> 'f FloatPairMeta \<Rightarrow> (Rc \<times> 'f FloatPairMeta) option"
  where
  "FloatPairMeta_parse env argv index here m =
     (if int (length argv) - index = 2 then
        do {
          t0 \<leftarrow> tokenAt argv index;
          t1 \<leftarrow> tokenAt argv (index + 1);
          case (toFloat env t0, toFloat env t1) of
            (Some v0, Some v1) \<Rightarrow>
              if flt env v0 (pmin m) \<or> flt env (pmax m) v0 \<or>
                 flt env v1 (pmin m) \<or> flt env (pmax m) v1
              then Some (RangeErrorRc, m)
              else Some (prc m, setHere here (setValue (v0, v1) m))
          | _ \<Rightarrow> report env argv [index, index + 1] (FailureRc, m)
        }
      else report env argv [index, index + 1] (FailureRc, m))"

subsection \<open>StringMeta, StringListMeta, BoolMeta\<close>

record StringMeta = "string LeafMeta" +
  src :: Rc
  delim :: string

definition StringMeta_parse ::
  "'f Env \<Rightarrow> string list \<Rightarrow> int \<Rightarrow> Where \<Rightarrow> StringMeta \<Rightarrow> (Rc \<times> StringMeta) option" where
  "StringMeta_parse env argv index here m =
     (if int (length argv) - index = 1 then
        do {
          tok \<leftarrow> tokenAt argv index;
          Some (src m, setHere here (setValue tok m))
        }
      else Some (FailureRc, m))"

definition StringMeta_format :: "bool \<Rightarrow> bool \<Rightarrow> StringMeta \<Rightarrow> string" where
  "StringMeta_format local glob m =
     LeafMeta_format local glob (delim m @ valueOf m @ delim m) m"

record StringListMeta = "string list LeafMeta" +
  slrc :: Rc
  sldelim :: string

text \<open>
  \<^verbatim>\<open>StringListMeta::parse\<close> clears the active slot and appends \<^verbatim>\<open>argv[i]\<close> for
  \<^verbatim>\<open>index <= i < argv.size()\<close>; a negative \<^verbatim>\<open>index\<close> would read outside \<^verbatim>\<open>argv\<close>.
\<close>

definition StringListMeta_parse ::
  "'f Env \<Rightarrow> string list \<Rightarrow> int \<Rightarrow> Where \<Rightarrow> StringListMeta \<Rightarrow> (Rc \<times> StringListMeta) option"
  where
  "StringListMeta_parse env argv index here m =
     (if index < 0 \<and> index < int (length argv) then None
      else Some (slrc m, setHere here (setValue (drop (nat index) argv) m)))"

type_synonym BoolMeta = "bool LeafMeta"

definition BoolMeta_parse ::
  "'f Env \<Rightarrow> string list \<Rightarrow> int \<Rightarrow> Where \<Rightarrow> BoolMeta \<Rightarrow> (Rc \<times> BoolMeta) option" where
  "BoolMeta_parse env argv index here m =
     (if index = int (length argv) - 1 then
        do {
          tok \<leftarrow> tokenAt argv index;
          if tok = ''TRUE'' \<or> tok = ''FALSE''
          then Some (OkRc, setHere here (setValue (tok = ''TRUE'') m))
          else report env argv [index] (FailureRc, m)
        }
      else report env argv [index] (FailureRc, m))"

definition BoolMeta_format :: "bool \<Rightarrow> bool \<Rightarrow> BoolMeta \<Rightarrow> string" where
  "BoolMeta_format local glob m =
     LeafMeta_format local glob (if valueOf m then ''TRUE'' else ''FALSE'') m"

subsection \<open>BorderMeta\<close>

datatype Border = BdrNone | BdrSquare | BdrRound

record 'f BorderData =
  bdType :: Border
  color :: string
  thickness :: 'f
  radius :: 'f
  margin0 :: 'f
  margin1 :: 'f
  line :: int

type_synonym 'f BorderMeta = "'f BorderData LeafMeta"

text \<open>
  \<^verbatim>\<open>_value[pushed].field = x\<close> changes one field of the active slot.
\<close>

definition updValue :: "('v \<Rightarrow> 'v) \<Rightarrow> ('v, 'x) LeafMeta_scheme \<Rightarrow> ('v, 'x) LeafMeta_scheme" where
  "updValue f m = setValue (f (valueOf m)) m"

text \<open>
  The tail of \<^verbatim>\<open>BorderMeta::parse\<close>: with \<^verbatim>\<open>rc == OkRc\<close> and exactly three tokens left,
  they must be \<^verbatim>\<open>MARGINS <x> <y>\<close>; at the end \<^verbatim>\<open>_here[pushed]\<close> is set when
  \<^verbatim>\<open>rc == OkRc\<close>.
\<close>

definition BorderMeta_margins ::
  "'f Env \<Rightarrow> string list \<Rightarrow> int \<Rightarrow> Where \<Rightarrow> Rc \<Rightarrow> 'f BorderMeta \<Rightarrow> (Rc \<times> 'f BorderMeta) option"
  where
  "BorderMeta_margins env argv index here rc m =
     do {
       (rc', m') \<leftarrow>
         (if rc = OkRc \<and> int (length argv) - index = 3 then
            do {
              t0 \<leftarrow> tokenAt argv index;
              if t0 = ''MARGINS'' then
                do {
                  t1 \<leftarrow> tokenAt argv (index + 1);
                  t2 \<leftarrow> tokenAt argv (index + 2);
                  case (toFloat env t1, toFloat env t2) of
                    (Some x, Some y) \<Rightarrow>
                      Some (rc, updValue (\<lambda>v. v\<lparr>margin0 := x, margin1 := y\<rparr>) m)
                  | _ \<Rightarrow> Some (FailureRc, m)
                }
              else Some (FailureRc, m)
            }
          else Some (rc, m));
       Some (rc', if rc' = OkRc then setHere here m' else m')
     }"

text \<open>
  \<^verbatim>\<open>BorderMeta::parse\<close>. The first test reads \<^verbatim>\<open>argv[index]\<close> before any bound is
  checked. The \<^verbatim>\<open>NONE\<close> branch is guarded by \<^verbatim>\<open>argv.size() - index >= 1\<close>, stores
  \<^verbatim>\<open>BdrNone\<close> at once and then reads \<^verbatim>\<open>argv[index+1]\<close>; it advances \<^verbatim>\<open>index\<close> by one.
  The \<^verbatim>\<open>SQUARE\<close> and \<^verbatim>\<open>ROUND\<close> branches are guarded by \<^verbatim>\<open>>= 4\<close> and \<^verbatim>\<open>>= 5\<close> and
  store nothing before their numbers have converted.
\<close>

definition BorderMeta_parse ::
  "'f Env \<Rightarrow> string list \<Rightarrow> int \<Rightarrow> Where \<Rightarrow> 'f BorderMeta \<Rightarrow> (Rc \<times> 'f BorderMeta) option"
  where
  "BorderMeta_parse env argv index here m =
     do {
       let size = int (length argv);
       t0 \<leftarrow> tokenAt argv index;
       if t0 = ''NONE'' \<and> size - index \<ge> 1 then
         do {
           let m1 = updValue (\<lambda>v. v\<lparr>bdType := BdrNone\<rparr>) m;
           t1 \<leftarrow> tokenAt argv (index + 1);
           if toInt t1 \<noteq> None
           then BorderMeta_margins env argv (index + 1) here OkRc
                  (updValue (\<lambda>v. v\<lparr>line := setBorderLine env t1\<rparr>) m1)
           else BorderMeta_margins env argv index here FailureRc m1
         }
       else if t0 = ''SQUARE'' \<and> size - index \<ge> 4 then
         do {
           t1 \<leftarrow> tokenAt argv (index + 1);
           t3 \<leftarrow> tokenAt argv (index + 3);
           case (toInt t1, toFloat env t3) of
             (Some _, Some th) \<Rightarrow>
               do {
                 t2 \<leftarrow> tokenAt argv (index + 2);
                 BorderMeta_margins env argv (index + 4) here OkRc
                   (updValue (\<lambda>v. v\<lparr>bdType := BdrSquare, line := setBorderLine env t1,
                                     color := t2, thickness := th\<rparr>) m)
               }
           | _ \<Rightarrow> BorderMeta_margins env argv index here FailureRc m
         }
       else if t0 = ''ROUND'' \<and> size - index \<ge> 5 then
         do {
           t1 \<leftarrow> tokenAt argv (index + 1);
           t3 \<leftarrow> tokenAt argv (index + 3);
           t4 \<leftarrow> tokenAt argv (index + 4);
           case (toInt t1, toFloat env t3, toInt t4) of
             (Some _, Some th, Some r) \<Rightarrow>
               do {
                 t2 \<leftarrow> tokenAt argv (index + 2);
                 BorderMeta_margins env argv (index + 5) here OkRc
                   (updValue (\<lambda>v. v\<lparr>bdType := BdrRound, line := setBorderLine env t1,
                                     color := t2, thickness := th, radius := ofInt env r\<rparr>) m)
               }
           | _ \<Rightarrow> BorderMeta_margins env argv index here FailureRc m
         }
       else BorderMeta_margins env argv index here FailureRc m
     }"

subsection \<open>PlacementMeta\<close>

datatype PlacementEnc =
  TopLeft | Top | TopRight | Right | BottomRight | Bottom | BottomLeft | Left | Center

datatype PrepositionEnc = Inside | Outside

datatype RectPlacement =
    TopLeftOutsideCorner | TopLeftOutside | TopOutside | TopRightOutSide | TopRightOutsideCorner
  | LeftTopOutside | TopLeftInsideCorner | TopInside | TopRightInsideCorner | RightTopOutside
  | LeftOutside | LeftInside | CenterCenter | RightInside | RightOutside
  | LeftBottomOutside | BottomLeftInsideCorner | BottomInside | BottomRightInsideCorner
  | RightBottomOutside
  | BottomLeftOutsideCorner | BottomLeftOutside | BottomOutside | BottomRightOutside
  | BottomRightOutsideCorner

text \<open>The enumerators of \<^verbatim>\<open>RectPlacement\<close> in the order of their values 0 to 24.\<close>

definition rectPlacements :: "RectPlacement list" where
  "rectPlacements =
     [TopLeftOutsideCorner, TopLeftOutside, TopOutside, TopRightOutSide, TopRightOutsideCorner,
      LeftTopOutside, TopLeftInsideCorner, TopInside, TopRightInsideCorner, RightTopOutside,
      LeftOutside, LeftInside, CenterCenter, RightInside, RightOutside,
      LeftBottomOutside, BottomLeftInsideCorner, BottomInside, BottomRightInsideCorner,
      RightBottomOutside,
      BottomLeftOutsideCorner, BottomLeftOutside, BottomOutside, BottomRightOutside,
      BottomRightOutsideCorner]"

definition NumSpots :: nat where
  "NumSpots = 25"

definition placementOptions :: "(string \<times> string \<times> string) list" where
  "placementOptions =
     [(''TOP_LEFT'', '''', ''OUTSIDE''),
      (''TOP'', ''LEFT'', ''OUTSIDE''),
      (''TOP'', ''CENTER'', ''OUTSIDE''),
      (''TOP'', ''RIGHT'', ''OUTSIDE''),
      (''TOP_RIGHT'', '''', ''OUTSIDE''),
      (''LEFT'', ''TOP'', ''OUTSIDE''),
      (''TOP_LEFT'', '''', ''INSIDE''),
      (''TOP'', '''', ''INSIDE''),
      (''TOP_RIGHT'', '''', ''INSIDE''),
      (''RIGHT'', ''TOP'', ''OUTSIDE''),
      (''LEFT'', ''CENTER'', ''OUTSIDE''),
      (''LEFT'', '''', ''INSIDE''),
      (''CENTER'', '''', ''INSIDE''),
      (''RIGHT'', '''', ''INSIDE''),
      (''RIGHT'', ''CENTER'', ''OUTSIDE''),
      (''LEFT'', ''BOTTOM'', ''OUTSIDE''),
      (''BOTTOM_LEFT'', '''', ''INSIDE''),
      (''BOTTOM'', '''', ''INSIDE''),
      (''BOTTOM_RIGHT'', '''', ''INSIDE''),
      (''RIGHT'', ''BOTTOM'', ''OUTSIDE''),
      (''BOTTOM_LEFT'', '''', ''OUTSIDE''),
      (''BOTTOM'', ''LEFT'', ''OUTSIDE''),
      (''BOTTOM'', ''CENTER'', ''OUTSIDE''),
      (''BOTTOM'', ''RIGHT'', ''OUTSIDE''),
      (''BOTTOM_RIGHT'', '''', ''OUTSIDE'')]"

definition placementDecode :: "(PlacementEnc \<times> PlacementEnc \<times> PrepositionEnc) list" where
  "placementDecode =
     [(TopLeft, Center, Outside),
      (Top, Left, Outside),
      (Top, Center, Outside),
      (Top, Right, Outside),
      (TopRight, Center, Outside),
      (Left, Top, Outside),
      (TopLeft, Center, Inside),
      (Top, Center, Inside),
      (TopRight, Center, Inside),
      (Right, Top, Outside),
      (Left, Center, Outside),
      (Left, Center, Inside),
      (Center, Center, Inside),
      (Right, Center, Inside),
      (Right, Center, Outside),
      (Left, Bottom, Outside),
      (BottomLeft, Center, Inside),
      (Bottom, Center, Inside),
      (BottomRight, Center, Inside),
      (Right, Bottom, Outside),
      (BottomLeft, Center, Outside),
      (Bottom, Left, Outside),
      (Bottom, Center, Outside),
      (Bottom, Right, Outside),
      (BottomRight, Center, Outside)]"

definition relativeTos :: "string list" where
  "relativeTos =
     [''PAGE'', ''ASSEM'', ''MULTI_STEP'', ''STEP_NUMBER'', ''PLI'', ''CALLOUT'', ''PAGE_NUMBER'',
      ''DOCUMENT_TITLE'', ''MODEL_ID'', ''DOCUMENT_AUTHOR'', ''PUBLISH_URL'',
      ''MODEL_DESCRIPTION'', ''PUBLISH_DESCRIPTION'', ''PUBLISH_COPYRIGHT'', ''PUBLISH_EMAIL'',
      ''LEGO_DISCLAIMER'', ''MODEL_PIECES'', ''APP_PLUG'', ''MODEL_CATEGORY'', ''DOCUMENT_LOGO'',
      ''DOCUMENT_COVER_IMAGE'', ''APP_PLUG_IMAGE'', ''PAGE_HEADER'', ''PAGE_FOOTER'',
      ''ROTATE_ICON'', ''PAGE_POINTER'', ''ONETOONE'', ''PARTID'', ''SUBMODEL'', ''ILLUSTRATION'',
      ''RIGHTWRONG'', ''STICKER'']"

text \<open>
  \<^verbatim>\<open>PlacementType\<close> is kept as the integer that \<^verbatim>\<open>PlacementType(tokenMap[relativeTo])\<close>
  casts. \<^verbatim>\<open>tokenMap\<close> is the registry that \<^verbatim>\<open>Meta::init\<close> fills, each keyword with the
  value of its enumerator in \<^verbatim>\<open>metatypes.h\<close>; \<^verbatim>\<open>QHash::operator[]\<close> gives 0 for a missing
  key.
\<close>

type_synonym PlacementType = int

definition PageType :: PlacementType where
  "PageType = 0"

definition tokenMapEntries :: "(string \<times> int) list" where
  "tokenMapEntries =
     [(''TOP_LEFT'', 0), (''TOP'', 1), (''TOP_RIGHT'', 2), (''RIGHT'', 3), (''BOTTOM_RIGHT'', 4),
      (''BOTTOM'', 5), (''BOTTOM_LEFT'', 6), (''LEFT'', 7), (''CENTER'', 8),
      (''INSIDE'', 0), (''OUTSIDE'', 1),
      (''PAGE'', 0), (''ASSEM'', 1), (''MULTI_STEP'', 2), (''STEP_GROUP'', 2),
      (''STEP_NUMBER'', 3), (''PLI'', 4), (''PAGE_NUMBER'', 6), (''CALLOUT'', 5),
      (''SORT_BY'', 3), (''ANNOTATION'', 3), (''ROTATE_ICON'', 24), (''PAGE_POINTER'', 25),
      (''DOCUMENT_TITLE'', 7), (''MODEL_ID'', 8), (''DOCUMENT_AUTHOR'', 9), (''PUBLISH_URL'', 10),
      (''MODEL_DESCRIPTION'', 11), (''PUBLISH_DESCRIPTION'', 12), (''PUBLISH_COPYRIGHT'', 13),
      (''PUBLISH_EMAIL'', 14), (''LEGO_DISCLAIMER'', 15), (''MODEL_PIECES'', 16),
      (''APP_PLUG'', 17), (''MODEL_CATEGORY'', 18), (''DOCUMENT_LOGO'', 19),
      (''DOCUMENT_COVER_IMAGE'', 20), (''APP_PLUG_IMAGE'', 21), (''PAGE_HEADER'', 22),
      (''PAGE_FOOTER'', 23),
      (''AREA'', 0), (''SQUARE'', 1), (''WIDTH'', 2), (''HEIGHT'', 3), (''COLS'', 4),
      (''HORIZONTAL'', 0), (''VERTICAL'', 1), (''PORTRAIT'', 0), (''LANDSCAPE'', 1),
      (''BASE_TOP_LEFT'', 6), (''BASE_TOP'', 7), (''BASE_TOP_RIGHT'', 8), (''BASE_LEFT'', 11),
      (''BASE_CENTER'', 12), (''BASE_RIGHT'', 13), (''BASE_BOTTOM_LEFT'', 16),
      (''BASE_BOTTOM'', 17), (''BASE_BOTTOM_RIGHT'', 18)]"

definition tokenMap :: "string \<Rightarrow> int" where
  "tokenMap k = (case map_of tokenMapEntries k of Some v \<Rightarrow> v | None \<Rightarrow> 0)"

record 'f PlacementData =
  placement :: PlacementEnc
  justification :: PlacementEnc
  relativeTo :: PlacementType
  preposition :: PrepositionEnc
  rectPlacement :: RectPlacement
  offsets0 :: 'f
  offsets1 :: 'f

type_synonym 'f PlacementMeta = "'f PlacementData LeafMeta"

text \<open>
  \<^verbatim>\<open>PlacementMeta::setValue(placement, relativeTo)\<close> fills the active slot from row
  \<^verbatim>\<open>placement\<close> of \<^verbatim>\<open>placementDecode\<close>; \<open>i\<close> is the value of the enumerator, and
  \<^verbatim>\<open>RectPlacement(i)\<close> is \<open>rectPlacements ! i\<close>.
\<close>

definition PlacementMeta_setValue ::
  "nat \<Rightarrow> PlacementType \<Rightarrow> 'f PlacementMeta \<Rightarrow> 'f PlacementMeta" where
  "PlacementMeta_setValue i rel m =
     (case placementDecode ! i of
        (pl, ju, pr) \<Rightarrow>
          updValue (\<lambda>v. v\<lparr>placement := pl, justification := ju, relativeTo := rel,
                            preposition := pr, rectPlacement := rectPlacements ! i\<rparr>) m)"

text \<open>
  The search loop of \<^verbatim>\<open>PlacementMeta::parse\<close> over \<^verbatim>\<open>placementOptions\<close>: the index of the
  first row equal to (placement, justification, preposition), or \<^verbatim>\<open>NumSpots\<close>.
\<close>

fun findSpot :: "nat \<Rightarrow> (string \<times> string \<times> string) list \<Rightarrow> string \<Rightarrow> string \<Rightarrow> string \<Rightarrow> nat"
  where
  "findSpot i [] p j q = i"
| "findSpot i ((a, b, c) # rest) p j q =
     (if a = p \<and> b = j \<and> c = q then i else findSpot (Suc i) rest p j q)"

text \<open>
  The last part of \<^verbatim>\<open>PlacementMeta::parse\<close>, entered with \<^verbatim>\<open>rc == OkRc\<close>: the
  relative-to token, the preposition, the two offsets, the normalisation of
  \<^verbatim>\<open>CENTER\<close> with \<^verbatim>\<open>INSIDE\<close>, the table search and the store.
\<close>

definition PlacementMeta_decode ::
  "('f::zero) Env \<Rightarrow> string list \<Rightarrow> int \<Rightarrow> Where \<Rightarrow> string \<Rightarrow> string \<Rightarrow> 'f PlacementMeta
     \<Rightarrow> (Rc \<times> 'f PlacementMeta) option" where
  "PlacementMeta_decode env argv index here placem justif m =
     (let argc = int (length argv) in
      if index < argc then
        do {
          t \<leftarrow> tokenAt argv index;
          (rel, prep, off0, off1) \<leftarrow>
            (if t \<in> set relativeTos then
               (let index1 = index + 1 in
                if index1 < argc then
                  do {
                    p \<leftarrow> tokenAt argv index1;
                    let prep = (if p = ''INSIDE'' \<or> p = ''OUTSIDE'' then p else []);
                    let index2 = (if p = ''INSIDE'' \<or> p = ''OUTSIDE'' then index1 + 1 else index1);
                    if argc - index2 = 2 then
                      do {
                        a \<leftarrow> tokenAt argv index2;
                        b \<leftarrow> tokenAt argv (index2 + 1);
                        case (toFloat env a, toFloat env b) of
                          (Some x, Some y) \<Rightarrow> Some (t, prep, x, y)
                        | _ \<Rightarrow> Some (t, prep, 0, 0)
                      }
                    else Some (t, prep, 0, 0)
                  }
                else Some (t, [], 0, 0))
             else Some ([], [], 0, 0));
          let justif' = (if prep = ''INSIDE'' \<and> justif = ''CENTER'' then [] else justif);
          let i = findSpot 0 placementOptions placem justif' prep;
          if i = NumSpots then Some (FailureRc, m)
          else Some (OkRc,
                 setHere here
                   (updValue (\<lambda>v. v\<lparr>offsets0 := off0, offsets1 := off1\<rparr>)
                      (PlacementMeta_setValue i (tokenMap rel) m)))
        }
      else Some (OkRc, m))"

text \<open>
  The middle part: the three shapes \<^verbatim>\<open>(TOP|BOTTOM) (LEFT|CENTER|RIGHT)?\<close>,
  \<^verbatim>\<open>(LEFT|RIGHT) (TOP|CENTER|BOTTOM)?\<close> and the corner or centre keyword. The regular
  expressions are anchored alternatives, so \<^verbatim>\<open>contains\<close> is membership.
\<close>

definition PlacementMeta_shape ::
  "('f::zero) Env \<Rightarrow> string list \<Rightarrow> int \<Rightarrow> Where \<Rightarrow> 'f PlacementMeta
     \<Rightarrow> (Rc \<times> 'f PlacementMeta) option" where
  "PlacementMeta_shape env argv index here m =
     (let argc = int (length argv) in
      do {
        t \<leftarrow> tokenAt argv index;
        if t \<in> {''TOP'', ''BOTTOM''} \<or> t \<in> {''LEFT'', ''RIGHT''} then
          (let justs = (if t \<in> {''TOP'', ''BOTTOM''} then {''LEFT'', ''CENTER'', ''RIGHT''}
                        else {''TOP'', ''CENTER'', ''BOTTOM''});
               index1 = index + 1
           in if index1 < argc then
                do {
                  j \<leftarrow> tokenAt argv index1;
                  if j \<in> justs then PlacementMeta_decode env argv (index1 + 1) here t j m
                  else if j \<in> set relativeTos then PlacementMeta_decode env argv index1 here t [] m
                  else Some (FailureRc, m)
                }
              else Some (FailureRc, m))
        else if t \<in> {''TOP_LEFT'', ''TOP_RIGHT'', ''BOTTOM_LEFT'', ''BOTTOM_RIGHT'', ''CENTER''}
        then PlacementMeta_decode env argv (index + 1) here t [] m
        else Some (FailureRc, m)
      })"

text \<open>
  \<^verbatim>\<open>PlacementMeta::parse\<close>: the \<^verbatim>\<open>OFFSET <fx> <fy>\<close> clause stores the two offsets and
  returns; when it does not apply, \<^verbatim>\<open>index\<close> has already moved past \<^verbatim>\<open>OFFSET\<close>.
\<close>

definition PlacementMeta_parse ::
  "('f::zero) Env \<Rightarrow> string list \<Rightarrow> int \<Rightarrow> Where \<Rightarrow> 'f PlacementMeta
     \<Rightarrow> (Rc \<times> 'f PlacementMeta) option" where
  "PlacementMeta_parse env argv index here m =
     (let argc = int (length argv) in
      do {
        t \<leftarrow> tokenAt argv index;
        if t = ''OFFSET'' then
          (let index1 = index + 1 in
           if argc - index1 = 2 then
             do {
               a \<leftarrow> tokenAt argv index1;
               b \<leftarrow> tokenAt argv (index1 + 1);
               case (toFloat env a, toFloat env b) of
                 (Some x, Some y) \<Rightarrow>
                   Some (OkRc, setHere here (updValue (\<lambda>v. v\<lparr>offsets0 := x, offsets1 := y\<rparr>) m))
               | _ \<Rightarrow> PlacementMeta_shape env argv index1 here m
             }
           else PlacementMeta_shape env argv index1 here m)
        else PlacementMeta_shape env argv index here m
      })"

subsection \<open>Leaves with one value: RotStepMeta, BuffExchgMeta, SubMeta, CalloutBeginMeta\<close>

text \<open>
  These classes derive from \<^verbatim>\<open>LeafMeta\<close> but declare a single \<^verbatim>\<open>_value\<close>
  (\<^verbatim>\<open>CalloutBeginMeta\<close>: a single \<^verbatim>\<open>mode\<close>) where the classes above declare the array
  \<^verbatim>\<open>_value[2]\<close>. Their records extend a \<open>LeafMeta\<close> whose two slots hold nothing. A
  parse that succeeds writes the one value and both locations, \<^verbatim>\<open>_here[0]\<close> and
  \<^verbatim>\<open>_here[1]\<close>, without reading \<^verbatim>\<open>pushed\<close>. Their diagnostics format only
  \<^verbatim>\<open>argv.join(" ")\<close>, which reads no token by index.
\<close>

definition setBothHere :: "Where \<Rightarrow> ('v, 'x) LeafMeta_scheme \<Rightarrow> ('v, 'x) LeafMeta_scheme" where
  "setBothHere h m = m\<lparr>here0 := h, here1 := h\<rparr>"

record 'f RotStepData =
  rots0 :: 'f
  rots1 :: 'f
  rots2 :: 'f
  rotType :: string

record 'f RotStepMeta = "unit LeafMeta" +
  rotStepValue :: "'f RotStepData"

definition RotStepMeta_parse ::
  "('f::zero) Env \<Rightarrow> string list \<Rightarrow> int \<Rightarrow> Where \<Rightarrow> 'f RotStepMeta
     \<Rightarrow> (Rc \<times> 'f RotStepMeta) option" where
  "RotStepMeta_parse env argv index here m =
     (if index + 4 = int (length argv) then
        do {
          t0 \<leftarrow> tokenAt argv index;
          t1 \<leftarrow> tokenAt argv (index + 1);
          t2 \<leftarrow> tokenAt argv (index + 2);
          case (toFloat env t0, toFloat env t1, toFloat env t2) of
            (Some r0, Some r1, Some r2) \<Rightarrow>
              do {
                t3 \<leftarrow> tokenAt argv (index + 3);
                if t3 = ''ABS'' \<or> t3 = ''REL'' \<or> t3 = ''ADD''
                then Some (RotStepRc,
                       setBothHere here
                         (m\<lparr>rotStepValue :=
                              \<lparr>rots0 = r0, rots1 = r1, rots2 = r2, rotType = t3\<rparr>\<rparr>))
                else Some (FailureRc, m)
              }
          | _ \<Rightarrow> Some (FailureRc, m)
        }
      else if int (length argv) - index = 1 then
        do {
          t \<leftarrow> tokenAt argv index;
          if t = ''END''
          then Some (RotStepRc,
                 setBothHere here
                   (m\<lparr>rotStepValue := \<lparr>rots0 = 0, rots1 = 0, rots2 = 0, rotType = []\<rparr>\<rparr>))
          else Some (FailureRc, m)
        }
      else Some (FailureRc, m))"

record BuffExchgData =
  buffer :: string
  buffType :: string

record BuffExchgMeta = "unit LeafMeta" +
  buffExchgValue :: BuffExchgData

text \<open>The pattern \<^verbatim>\<open>^[A-Z]$\<close>: the token is one capital letter.\<close>

definition isCapital :: "string \<Rightarrow> bool" where
  "isCapital s = (length s = 1 \<and> (65::nat) \<le> of_char (hd s) \<and> of_char (hd s) \<le> (90::nat))"

definition BuffExchgMeta_parse ::
  "'f Env \<Rightarrow> string list \<Rightarrow> int \<Rightarrow> Where \<Rightarrow> BuffExchgMeta \<Rightarrow> (Rc \<times> BuffExchgMeta) option"
  where
  "BuffExchgMeta_parse env argv index here m =
     (if index + 2 = int (length argv) then
        do {
          t0 \<leftarrow> tokenAt argv index;
          if isCapital t0 then
            do {
              t1 \<leftarrow> tokenAt argv (index + 1);
              if t1 = ''STORE'' \<or> t1 = ''RETRIEVE'' then
                Some (if t1 = ''RETRIEVE'' then BufferLoadRc else BufferStoreRc,
                      setBothHere here
                        (m\<lparr>buffExchgValue := (buffExchgValue m)\<lparr>buffer := t0\<rparr>\<rparr>))
              else Some (FailureRc, m)
            }
          else Some (FailureRc, m)
        }
      else Some (FailureRc, m))"

record SubData =
  subColor :: string
  subPart :: string
  subType :: Rc

record SubMeta = "unit LeafMeta" +
  subValue :: SubData

definition SubMeta_parse ::
  "'f Env \<Rightarrow> string list \<Rightarrow> int \<Rightarrow> Where \<Rightarrow> SubMeta \<Rightarrow> (Rc \<times> SubMeta) option" where
  "SubMeta_parse env argv index here m =
     (let argc = int (length argv) - index in
      if argc = 1 then
        do {
          t0 \<leftarrow> tokenAt argv index;
          Some (PliBeginSub1Rc,
                setBothHere here
                  (m\<lparr>subValue := \<lparr>subColor = [], subPart = t0, subType = PliBeginSub1Rc\<rparr>\<rparr>))
        }
      else if argc = 2 then
        do {
          t0 \<leftarrow> tokenAt argv index;
          t1 \<leftarrow> tokenAt argv (index + 1);
          Some (PliBeginSub2Rc,
                setBothHere here
                  (m\<lparr>subValue := \<lparr>subColor = t1, subPart = t0, subType = PliBeginSub2Rc\<rparr>\<rparr>))
        }
      else Some (FailureRc, m))"

datatype CalloutMode = Unassembled | Assembled | Rotated

record CalloutBeginMeta = "unit LeafMeta" +
  mode :: CalloutMode

definition CalloutBeginMeta_parse ::
  "'f Env \<Rightarrow> string list \<Rightarrow> int \<Rightarrow> Where \<Rightarrow> CalloutBeginMeta
     \<Rightarrow> (Rc \<times> CalloutBeginMeta) option" where
  "CalloutBeginMeta_parse env argv index here m =
     (let argc = int (length argv) - index in
      if argc = 0 then Some (CalloutBeginRc, setBothHere here (m\<lparr>mode := Unassembled\<rparr>))
      else if argc = 1 then
        do {
          t \<leftarrow> tokenAt argv index;
          if t = ''ASSEMBLED''
          then Some (CalloutBeginRc, setBothHere here (m\<lparr>mode := Assembled\<rparr>))
          else if t = ''ROTATED''
          then Some (CalloutBeginRc, setBothHere here (m\<lparr>mode := Rotated\<rparr>))
          else Some (FailureRc, m)
        }
      else Some (FailureRc, m))"

subsection \<open>BranchMeta\<close>

text \<open>
  A node of the tree is a leaf of one of the kinds above or a branch: a \<^verbatim>\<open>QHash\<close> from
  keyword to child, kept as an association list whose order is the order in which the
  hash is iterated. Every node, leaf or branch, has the flags \<^verbatim>\<open>pushed\<close> and
  \<^verbatim>\<open>global\<close> of \<^verbatim>\<open>AbstractMeta\<close>. The virtual call \<^verbatim>\<open>i.value()->parse(...)\<close> is
  \<open>parseLeaf\<close> on a leaf and \<open>parseNode\<close> on any node. \<open>Leaf\<close> has the twelve leaf
  classes modelled above. The other leaf classes of \<^verbatim>\<open>meta.cpp\<close> are not in it:
  \<^verbatim>\<open>RcMeta\<close>, \<^verbatim>\<open>NoStepMeta\<close>, \<^verbatim>\<open>BackgroundMeta\<close>, \<^verbatim>\<open>PointerMeta\<close>, \<^verbatim>\<open>FreeFormMeta\<close>,
  \<^verbatim>\<open>ConstrainMeta\<close>, \<^verbatim>\<open>AllocMeta\<close>, \<^verbatim>\<open>PageOrientationMeta\<close>, \<^verbatim>\<open>PageSizeMeta\<close>,
  \<^verbatim>\<open>SepMeta\<close>, \<^verbatim>\<open>InsertMeta\<close>, \<^verbatim>\<open>AlignmentMeta\<close>, \<^verbatim>\<open>ArrowHeadMeta\<close>,
  \<^verbatim>\<open>ArrowEndMeta\<close>, \<^verbatim>\<open>ResolutionMeta\<close> and \<^verbatim>\<open>MLCadMeta\<close>. A statement about
  \<open>Leaf\<close> is a statement about the twelve classes, not about those.
\<close>

datatype 'f Leaf =
    IntLeaf IntMeta
  | FloatLeaf "'f FloatMeta"
  | FloatPairLeaf "'f FloatPairMeta"
  | StringLeaf StringMeta
  | StringListLeaf StringListMeta
  | BoolLeaf BoolMeta
  | PlacementLeaf "'f PlacementMeta"
  | BorderLeaf "'f BorderMeta"
  | RotStepLeaf "'f RotStepMeta"
  | BuffExchgLeaf BuffExchgMeta
  | SubLeaf SubMeta
  | CalloutBeginLeaf CalloutBeginMeta

datatype 'f Node =
    LeafNode "'f Leaf"
  | BranchNode bool bool "(string \<times> 'f Node) list"

definition parseLeaf ::
  "('f::zero) Env \<Rightarrow> string list \<Rightarrow> int \<Rightarrow> Where \<Rightarrow> 'f Leaf \<Rightarrow> (Rc \<times> 'f Leaf) option" where
  "parseLeaf env argv index here l =
     (case l of
        IntLeaf m \<Rightarrow> map_option (apsnd IntLeaf) (IntMeta_parse env argv index here m)
      | FloatLeaf m \<Rightarrow> map_option (apsnd FloatLeaf) (FloatMeta_parse env argv index here m)
      | FloatPairLeaf m \<Rightarrow>
          map_option (apsnd FloatPairLeaf) (FloatPairMeta_parse env argv index here m)
      | StringLeaf m \<Rightarrow> map_option (apsnd StringLeaf) (StringMeta_parse env argv index here m)
      | StringListLeaf m \<Rightarrow>
          map_option (apsnd StringListLeaf) (StringListMeta_parse env argv index here m)
      | BoolLeaf m \<Rightarrow> map_option (apsnd BoolLeaf) (BoolMeta_parse env argv index here m)
      | PlacementLeaf m \<Rightarrow>
          map_option (apsnd PlacementLeaf) (PlacementMeta_parse env argv index here m)
      | BorderLeaf m \<Rightarrow> map_option (apsnd BorderLeaf) (BorderMeta_parse env argv index here m)
      | RotStepLeaf m \<Rightarrow> map_option (apsnd RotStepLeaf) (RotStepMeta_parse env argv index here m)
      | BuffExchgLeaf m \<Rightarrow>
          map_option (apsnd BuffExchgLeaf) (BuffExchgMeta_parse env argv index here m)
      | SubLeaf m \<Rightarrow> map_option (apsnd SubLeaf) (SubMeta_parse env argv index here m)
      | CalloutBeginLeaf m \<Rightarrow>
          map_option (apsnd CalloutBeginLeaf) (CalloutBeginMeta_parse env argv index here m))"

text \<open>
  The assignments \<^verbatim>\<open>i.value()->pushed = ...\<close> and \<^verbatim>\<open>i.value()->global = ...\<close> that
  \<^verbatim>\<open>BranchMeta::parse\<close> makes on the matched child before it calls the child's
  \<^verbatim>\<open>parse\<close>: \<open>None\<close> leaves a flag as it is.
\<close>

definition setFlags ::
  "bool option \<Rightarrow> bool option \<Rightarrow> ('v, 'x) LeafMeta_scheme \<Rightarrow> ('v, 'x) LeafMeta_scheme" where
  "setFlags fp fg m =
     m\<lparr>pushed := (case fp of Some b \<Rightarrow> b | None \<Rightarrow> pushed m),
       global := (case fg of Some b \<Rightarrow> b | None \<Rightarrow> global m)\<rparr>"

definition Leaf_setFlags :: "bool option \<Rightarrow> bool option \<Rightarrow> 'f Leaf \<Rightarrow> 'f Leaf" where
  "Leaf_setFlags fp fg l =
     (case l of
        IntLeaf m \<Rightarrow> IntLeaf (setFlags fp fg m)
      | FloatLeaf m \<Rightarrow> FloatLeaf (setFlags fp fg m)
      | FloatPairLeaf m \<Rightarrow> FloatPairLeaf (setFlags fp fg m)
      | StringLeaf m \<Rightarrow> StringLeaf (setFlags fp fg m)
      | StringListLeaf m \<Rightarrow> StringListLeaf (setFlags fp fg m)
      | BoolLeaf m \<Rightarrow> BoolLeaf (setFlags fp fg m)
      | PlacementLeaf m \<Rightarrow> PlacementLeaf (setFlags fp fg m)
      | BorderLeaf m \<Rightarrow> BorderLeaf (setFlags fp fg m)
      | RotStepLeaf m \<Rightarrow> RotStepLeaf (setFlags fp fg m)
      | BuffExchgLeaf m \<Rightarrow> BuffExchgLeaf (setFlags fp fg m)
      | SubLeaf m \<Rightarrow> SubLeaf (setFlags fp fg m)
      | CalloutBeginLeaf m \<Rightarrow> CalloutBeginLeaf (setFlags fp fg m))"

definition Node_setFlags :: "bool option \<Rightarrow> bool option \<Rightarrow> 'f Node \<Rightarrow> 'f Node" where
  "Node_setFlags fp fg n =
     (case n of
        LeafNode l \<Rightarrow> LeafNode (Leaf_setFlags fp fg l)
      | BranchNode p g kids \<Rightarrow>
          BranchNode (case fp of Some b \<Rightarrow> b | None \<Rightarrow> p) (case fg of Some b \<Rightarrow> b | None \<Rightarrow> g) kids)"

text \<open>
  \<^verbatim>\<open>BranchMeta::parse\<close>. \<open>parseNode env argv index here fp fg n\<close> first makes the flag
  assignments \<open>fp\<close>, \<open>fg\<close> on \<open>n\<close> and then runs the \<^verbatim>\<open>parse\<close> of \<open>n\<close>.
  \<open>exactKids\<close> is \<^verbatim>\<open>list.find(argv[index])\<close> with what follows a match: an optional
  \<^verbatim>\<open>LOCAL\<close> or \<^verbatim>\<open>GLOBAL\<close> after the keyword sets the child's flag, and a directive that
  ends there is a failure (the flag stays set). Its outer \<open>None\<close> is "no such key".
  \<open>rxKids\<close> is the loop over the children that matches each key as a regular
  expression against the token and parses with the first child that matches.
\<close>

fun parseNode ::
    "('f::zero) Env \<Rightarrow> string list \<Rightarrow> int \<Rightarrow> Where \<Rightarrow> bool option \<Rightarrow> bool option \<Rightarrow> 'f Node
       \<Rightarrow> (Rc \<times> 'f Node) option"
  and exactKids ::
    "'f Env \<Rightarrow> string list \<Rightarrow> int \<Rightarrow> Where \<Rightarrow> string \<Rightarrow> (string \<times> 'f Node) list
       \<Rightarrow> (Rc \<times> (string \<times> 'f Node) list) option option"
  and rxKids ::
    "'f Env \<Rightarrow> string list \<Rightarrow> int \<Rightarrow> Where \<Rightarrow> bool \<Rightarrow> bool \<Rightarrow> string
       \<Rightarrow> (string \<times> 'f Node) list \<Rightarrow> (Rc \<times> (string \<times> 'f Node) list) option option"
  where
  "parseNode env argv index here fp fg (LeafNode l) =
     map_option (apsnd LeafNode) (parseLeaf env argv index here (Leaf_setFlags fp fg l))"
| "parseNode env argv index here fp fg (BranchNode p g kids) =
     (let size = int (length argv);
          p' = (case fp of Some b \<Rightarrow> b | None \<Rightarrow> p);
          g' = (case fg of Some b \<Rightarrow> b | None \<Rightarrow> g)
      in if index < size then
           do {
             key \<leftarrow> tokenAt argv index;
             case exactKids env argv index here key kids of
               Some r \<Rightarrow> map_option (apsnd (BranchNode p' g')) r
             | None \<Rightarrow>
                 if size - index > 1 then
                   (let local = (key = ''LOCAL'');
                        glob = (key = ''GLOBAL'');
                        offset = (if local \<or> glob then 1 else 0)
                    in if index + offset < size then
                         do {
                           tok \<leftarrow> tokenAt argv (index + offset);
                           case rxKids env argv (index + offset) here local glob tok kids of
                             Some r \<Rightarrow> map_option (apsnd (BranchNode p' g')) r
                           | None \<Rightarrow> Some (FailureRc, BranchNode p' g' kids)
                         }
                       else Some (FailureRc, BranchNode p' g' kids))
                 else Some (FailureRc, BranchNode p' g' kids)
           }
         else Some (FailureRc, BranchNode p' g' kids))"
| "exactKids env argv index here key [] = None"
| "exactKids env argv index here key ((k, c) # rest) =
     (if k = key then
        Some
          (let size = int (length argv) in
           if size - index > 1 then
             do {
               t1 \<leftarrow> tokenAt argv (index + 1);
               let fp = (if t1 = ''LOCAL'' then Some True else None);
               let fg = (if t1 \<noteq> ''LOCAL'' \<and> t1 = ''GLOBAL'' then Some True else None);
               let offset = (if t1 = ''LOCAL'' \<or> t1 = ''GLOBAL'' then 2 else 1);
               if index + offset \<ge> size
               then Some (FailureRc, (k, Node_setFlags fp fg c) # rest)
               else map_option (apsnd (\<lambda>c'. (k, c') # rest))
                      (parseNode env argv (index + offset) here fp fg c)
             }
           else map_option (apsnd (\<lambda>c'. (k, c') # rest))
                  (parseNode env argv (index + 1) here None None c))
      else map_option (map_option (apsnd ((#) (k, c))))
             (exactKids env argv index here key rest))"
| "rxKids env argv index here local glob tok [] = None"
| "rxKids env argv index here local glob tok ((k, c) # rest) =
     (if rxContains env k tok then
        Some (map_option (apsnd (\<lambda>c'. (k, c') # rest))
                (parseNode env argv index here (Some local) (Some glob) c))
      else map_option (map_option (apsnd ((#) (k, c))))
             (rxKids env argv index here local glob tok rest))"

subsection \<open>A concrete environment and concrete leaves\<close>

text \<open>
  For the closed examples below: \<open>decimal\<close> reads a token \<^verbatim>\<open>[+-]digits[.digits]\<close> as the
  rational number it denotes and stands for \<^verbatim>\<open>QString::toFloat\<close>; \<^verbatim>\<open>setBorderLine\<close> is
  taken to be the integer value of its token; a key without regular-expression
  operators is contained in a token when it is a substring of it; diagnostics are off.
\<close>

definition decimal :: "string \<Rightarrow> rat option" where
  "decimal s =
     (let neg = (s \<noteq> [] \<and> hd s = CHR ''-'');
          body = (if s \<noteq> [] \<and> (hd s = CHR ''-'' \<or> hd s = CHR ''+'') then tl s else s);
          ip = takeWhile (\<lambda>c. c \<noteq> CHR ''.'') body;
          fp = drop 1 (dropWhile (\<lambda>c. c \<noteq> CHR ''.'') body)
      in if (ip = [] \<and> fp = []) \<or> \<not> list_all isDigit ip \<or> \<not> list_all isDigit fp then None
         else Some ((if neg then - 1 else 1) * (of_nat (decVal 0 (ip @ fp)) / 10 ^ length fp)))"

definition isSubstring :: "string \<Rightarrow> string \<Rightarrow> bool" where
  "isSubstring pat tok =
     list_ex (\<lambda>i. take (length pat) (drop i tok) = pat) [0 ..< Suc (length tok)]"

definition sampleEnv :: "rat Env" where
  "sampleEnv =
     \<lparr>toFloat = decimal, ofInt = of_int, flt = (<),
      setBorderLine = (\<lambda>s. case toInt s of Some v \<Rightarrow> v | None \<Rightarrow> 0),
      rxContains = isSubstring, reportErrors = False\<rparr>"

definition noWhere :: Where where
  "noWhere = \<lparr>modelName = [], lineNumber = 0\<rparr>"

definition line7 :: Where where
  "line7 = \<lparr>modelName = ''model.ldr'', lineNumber = 7\<rparr>"

text \<open>
  A leaf as its constructor leaves it: both flags clear, both locations empty. The
  constructor \<^verbatim>\<open>BorderData()\<close> gives thickness 0.125, radius 15, no margins, type
  \<^verbatim>\<open>BdrNone\<close>, line \<^verbatim>\<open>BdrLnNone\<close> and colour \<^verbatim>\<open>Black\<close>; \<open>squareBorder\<close> is a border leaf
  whose default slot has since been set to a square border.
\<close>

definition newLeaf :: "string \<Rightarrow> 'v \<Rightarrow> 'v \<Rightarrow> 'v LeafMeta" where
  "newLeaf pre v0 v1 =
     \<lparr>preamble = pre, pushed = False, global = False, value0 = v0, value1 = v1,
      here0 = noWhere, here1 = noWhere\<rparr>"

definition BorderData_init :: "rat BorderData" where
  "BorderData_init =
     \<lparr>bdType = BdrNone, color = ''Black'', thickness = 1 / 8, radius = 15,
      margin0 = 0, margin1 = 0, line = 0\<rparr>"

definition squareBorder :: "rat BorderMeta" where
  "squareBorder =
     newLeaf ''0 !LPUB PLI BORDER '' (BorderData_init\<lparr>bdType := BdrSquare, line := 1\<rparr>)
       BorderData_init"

definition sampleInt :: IntMeta where
  "sampleInt = LeafMeta.extend (newLeaf ''0 !LPUB STEP_NUMBER FONT_SIZE '' 0 0)
                 (IntMeta.fields (- 100) 100 OkRc)"

text \<open>
  \<^verbatim>\<open>PlacementMeta::PlacementMeta()\<close> sets slot 0 to row \<^verbatim>\<open>TopLeftInsideCorner\<close> of the
  decode table, relative to the page, with no offsets. Slot 1 is a default
  \<^verbatim>\<open>PlacementData\<close>, of which the constructor sets only \<^verbatim>\<open>rectPlacement\<close> and the
  offsets; the other fields of slot 1 are given the values of slot 0 here.
\<close>

definition PlacementMeta_init :: "rat PlacementMeta" where
  "PlacementMeta_init =
     newLeaf ''0 !LPUB PLI PLACEMENT ''
       \<lparr>placement = TopLeft, justification = Center, relativeTo = PageType,
        preposition = Inside, rectPlacement = TopLeftInsideCorner, offsets0 = 0, offsets1 = 0\<rparr>
       \<lparr>placement = TopLeft, justification = Center, relativeTo = PageType,
        preposition = Inside, rectPlacement = TopLeftOutsideCorner, offsets0 = 0, offsets1 = 0\<rparr>"

subsection \<open>Reading a leaf of any kind\<close>










text \<open>
  A float leaf as its constructor leaves it, for the closed examples: range
  \<open>[0, 100]\<close>, both slots 0.
\<close>

definition sampleFloat :: "rat FloatMeta" where
  "sampleFloat = LeafMeta.extend (newLeaf ''0 !LPUB PLI MODEL_SCALE '' 0 0)
                   (FloatMeta.fields 0 100 OkRc)"

text \<open>
  What a parse may change in a leaf: \<open>keeps m m'\<close> says that \<open>m'\<close> has the flags of
  \<open>m\<close> and the value and location of the slot that \<open>pushed m\<close> does not select.
\<close>

definition keeps :: "('v, 'x) LeafMeta_scheme \<Rightarrow> ('v, 'x) LeafMeta_scheme \<Rightarrow> bool" where
  "keeps m m' = (pushed m' = pushed m \<and> global m' = global m \<and>
      (pushed m \<longrightarrow> value0 m' = value0 m \<and> here0 m' = here0 m) \<and>
      (\<not> pushed m \<longrightarrow> value1 m' = value1 m \<and> here1 m' = here1 m))"

text \<open>
  \<open>okKeeps m r\<close>: a parse result \<open>r\<close> that is not an out-of-range read holds a leaf
  that \<open>keeps\<close> what \<open>m\<close> had. \<open>Leaf_keeps\<close> is \<open>keeps\<close> for a leaf of any kind.
\<close>

definition okKeeps :: "('v, 'x) LeafMeta_scheme \<Rightarrow> (Rc \<times> ('v, 'x) LeafMeta_scheme) option \<Rightarrow> bool" where
  "okKeeps m r = (case r of None \<Rightarrow> True | Some p \<Rightarrow> keeps m (snd p))"


text \<open>
  What a parse of a leaf with one value may change: \<open>okPlain h m r\<close> says that the
  result \<open>r\<close> of a parse called with location \<open>h\<close> has the flags of \<open>m\<close>, and that a
  result other than \<^verbatim>\<open>FailureRc\<close> has \<open>h\<close> in both locations.
\<close>

definition okPlain ::
  "Where \<Rightarrow> ('v, 'x) LeafMeta_scheme \<Rightarrow> (Rc \<times> ('v, 'x) LeafMeta_scheme) option \<Rightarrow> bool" where
  "okPlain h m r =
     (case r of None \<Rightarrow> True
      | Some p \<Rightarrow> pushed (snd p) = pushed m \<and> global (snd p) = global m \<and>
                  (fst p \<noteq> FailureRc \<longrightarrow> here0 (snd p) = h \<and> here1 (snd p) = h))"




section \<open>The parts list: PliPart, sorting, the BOM split\<close>

text \<open>
  The fields of \<^verbatim>\<open>PliPart\<close> that sorting and placement use. The margins are the pixel
  values the code reads through \<^verbatim>\<open>valuePixels\<close>: \<open>csiMarginX\<close> and \<open>csiMarginY\<close> are
  \<^verbatim>\<open>csiMargin.valuePixels(XX)\<close> and \<^verbatim>\<open>(YY)\<close>, \<open>instanceMarginX\<close> is
  \<^verbatim>\<open>instanceMeta.margin.valuePixels(XX)\<close>, \<open>styleMarginX\<close> is
  \<^verbatim>\<open>styleMeta.margin.valuePixels(XX)\<close>. \<open>botY\<close> is the field \<^verbatim>\<open>bot\<close>. Pixel
  arithmetic is on \<open>int\<close>: the model is of runs in which no \<^verbatim>\<open>int\<close> overflows.
\<close>

record PliPart =
  sortColour :: string
  sortCategory :: string
  sortSize :: string
  sortElement :: string
  width :: int
  height :: int
  leftEdge :: "int list"
  rightEdge :: "int list"
  csiMarginX :: int
  csiMarginY :: int
  instanceMarginX :: int
  styleMarginX :: int
  topMargin :: int
  annotWidth :: int
  left :: int
  botY :: int
  col :: int
  placed :: bool

subsection \<open>sortParts\<close>

text \<open>
  Modelled from the spec: the enumerations \<^verbatim>\<open>PartSize\<close>, \<^verbatim>\<open>PartColour\<close>,
  \<^verbatim>\<open>PartCategory\<close>, \<^verbatim>\<open>PartElement\<close>, \<^verbatim>\<open>NoSort\<close>, the sort levels and the sort
  directions that \<^verbatim>\<open>Pli::sortParts\<close> names are declared in a header that is not among
  the sources. The spec has "primary/secondary/tertiary configurable sort fields
  (part size, color, category, catalog element), each field independently
  configurable ascending/descending". \<open>SortOrder\<close> holds what
  \<^verbatim>\<open>tokenMap[pliMeta.sortOrder.<field>.value()]\<close> gives for each field. The last
  statement of the loop body passes an option where a sort level is expected;
  \<open>levelOfOption\<close> says which level, if any, has the integer value of an option.
\<close>

datatype SortOption = PartSize | PartColour | PartCategory | PartElement | NoSort

datatype SortLevel = SortPrimary | SortSecondary | SortTetriary

datatype SortDirection = SortAscending | SortDescending

record SortOrder =
  primary :: SortOption
  secondary :: SortOption
  tertiary :: SortOption
  primaryDirection :: SortDirection
  secondaryDirection :: SortDirection
  tertiaryDirection :: SortDirection
  levelOfOption :: "SortOption \<Rightarrow> SortLevel option"

text \<open>The lambda \<^verbatim>\<open>setSortDirection\<close>: a \<^verbatim>\<open>switch\<close> without default.\<close>

definition setSortDirection :: "SortOrder \<Rightarrow> SortLevel option \<Rightarrow> bool \<Rightarrow> bool" where
  "setSortDirection cfg level asc =
     (case level of
        Some SortPrimary \<Rightarrow> primaryDirection cfg \<noteq> SortDescending
      | Some SortSecondary \<Rightarrow> secondaryDirection cfg \<noteq> SortDescending
      | Some SortTetriary \<Rightarrow> tertiaryDirection cfg \<noteq> SortDescending
      | None \<Rightarrow> asc)"

text \<open>The lambda \<^verbatim>\<open>setPartValues\<close>: \<^verbatim>\<open>firstValue\<close> and \<^verbatim>\<open>nextValue\<close> for an option.\<close>

definition setPartValues ::
  "SortOption \<Rightarrow> PliPart \<Rightarrow> PliPart \<Rightarrow> string \<times> string \<Rightarrow> string \<times> string" where
  "setPartValues option p q vals =
     (case option of
        PartColour \<Rightarrow> (sortColour p, sortColour q)
      | PartCategory \<Rightarrow> (sortCategory p, sortCategory q)
      | PartSize \<Rightarrow> (sortSize p, sortSize q)
      | PartElement \<Rightarrow> (sortElement p, sortElement q)
      | NoSort \<Rightarrow> vals)"

text \<open>
  The locals of one comparison: \<^verbatim>\<open>firstValue\<close> and \<^verbatim>\<open>nextValue\<close>, the array
  \<^verbatim>\<open>sortedBy\<close>, \<^verbatim>\<open>canSort\<close>, and \<^verbatim>\<open>ascending\<close>, which is declared outside the loops
  and so survives from one comparison to the next.
\<close>

record Comparison =
  cvalues :: "string \<times> string"
  sortedBy :: "SortOption \<Rightarrow> bool"
  canSort :: bool
  ascending :: bool

text \<open>
  The three statements \<^verbatim>\<open>setSortDirection(level); setPartValues(option);
  setSortedBy(option);\<close> that each sort level runs when it is consulted.
\<close>

definition consult ::
  "SortOrder \<Rightarrow> SortLevel \<Rightarrow> SortOption \<Rightarrow> PliPart \<Rightarrow> PliPart \<Rightarrow> Comparison \<Rightarrow> Comparison" where
  "consult cfg level option p q c =
     \<lparr>cvalues = setPartValues option p q (cvalues c),
      sortedBy = (sortedBy c)(option := True),
      canSort = True,
      ascending = setSortDirection cfg (Some level) (ascending c)\<rparr>"

text \<open>
  The body of the inner loop up to the test for a swap: the primary level is
  consulted when it is not \<^verbatim>\<open>NoSort\<close>; the secondary and the tertiary level are
  consulted when \<^verbatim>\<open>setSplit\<close> is off, the cvalues so far are equal, the option has not
  been used by an earlier level and is not \<^verbatim>\<open>NoSort\<close>.
\<close>

definition compareParts :: "SortOrder \<Rightarrow> bool \<Rightarrow> PliPart \<Rightarrow> PliPart \<Rightarrow> bool \<Rightarrow> Comparison" where
  "compareParts cfg setSplit p q asc =
     (let c0 = \<lparr>cvalues = ([], []), sortedBy = (\<lambda>_. False), canSort = False, ascending = asc\<rparr>;
          c1 = (if primary cfg \<noteq> NoSort then consult cfg SortPrimary (primary cfg) p q c0 else c0);
          c2 = (if \<not> setSplit \<and> fst (cvalues c1) = snd (cvalues c1) \<and>
                   \<not> sortedBy c1 (secondary cfg) \<and> secondary cfg \<noteq> NoSort
                then consult cfg SortSecondary (secondary cfg) p q c1 else c1);
          c3 = (if \<not> setSplit \<and> fst (cvalues c2) = snd (cvalues c2) \<and>
                   \<not> sortedBy c2 (tertiary cfg) \<and> tertiary cfg \<noteq> NoSort
                then consult cfg SortTetriary (tertiary cfg) p q c2 else c2)
      in c3)"

text \<open>\<^verbatim>\<open>canSort && (ascending ? firstValue > nextValue : firstValue < nextValue)\<close>\<close>

definition swapNeeded :: "Comparison \<Rightarrow> bool" where
  "swapNeeded c =
     (canSort c \<and> (if ascending c then fst (cvalues c) > snd (cvalues c)
                   else fst (cvalues c) < snd (cvalues c)))"

text \<open>
  One run of the inner loop body on the state (\<^verbatim>\<open>sortedKeys\<close>, \<^verbatim>\<open>unsorted\<close>,
  \<^verbatim>\<open>ascending\<close>): compare the parts of the keys at \<^verbatim>\<open>firstPart\<close> and \<^verbatim>\<open>nextPart\<close>,
  exchange the two keys when a swap is needed, and "restore" the direction with
  \<^verbatim>\<open>setSortDirection(tokenMap[pliMeta.sortOrder.primary.value()])\<close>. \<open>parts\<close> is the
  lookup \<^verbatim>\<open>parts[key]\<close> for the keys of the hash.
\<close>

definition sortStep ::
  "SortOrder \<Rightarrow> bool \<Rightarrow> ('k \<Rightarrow> PliPart) \<Rightarrow> nat \<Rightarrow> nat \<Rightarrow> 'k list \<times> bool \<times> bool
     \<Rightarrow> 'k list \<times> bool \<times> bool" where
  "sortStep cfg setSplit parts firstPart nextPart st =
     (case st of (sortedKeys, unsorted, asc) \<Rightarrow>
        let c = compareParts cfg setSplit (parts (sortedKeys ! firstPart))
                  (parts (sortedKeys ! nextPart)) asc;
            asc' = setSortDirection cfg (levelOfOption cfg (primary cfg)) (ascending c)
        in if swapNeeded c
           then (sortedKeys[firstPart := sortedKeys ! nextPart, nextPart := sortedKeys ! firstPart],
                 True, asc')
           else (sortedKeys, unsorted, asc'))"

text \<open>
  The two \<^verbatim>\<open>for\<close> loops, with \<open>n\<close> for \<^verbatim>\<open>parts.size()\<close>, and the \<^verbatim>\<open>while (unsorted)\<close>
  loop around them. At both call sites \<^verbatim>\<open>sortedKeys\<close> has just been set to the keys
  of the hash, so \<^verbatim>\<open>parts.size()\<close> is the length of \<^verbatim>\<open>sortedKeys\<close>. The \<^verbatim>\<open>while\<close> loop
  is a partial function: \<open>None\<close> is a run that never leaves it.
\<close>

definition sortInner ::
  "SortOrder \<Rightarrow> bool \<Rightarrow> ('k \<Rightarrow> PliPart) \<Rightarrow> nat \<Rightarrow> nat \<Rightarrow> 'k list \<times> bool \<times> bool
     \<Rightarrow> 'k list \<times> bool \<times> bool" where
  "sortInner cfg setSplit parts n firstPart st =
     fold (sortStep cfg setSplit parts firstPart) [Suc firstPart ..< n] st"

definition sortPass ::
  "SortOrder \<Rightarrow> bool \<Rightarrow> ('k \<Rightarrow> PliPart) \<Rightarrow> nat \<Rightarrow> 'k list \<times> bool \<times> bool
     \<Rightarrow> 'k list \<times> bool \<times> bool" where
  "sortPass cfg setSplit parts n st = fold (sortInner cfg setSplit parts n) [0 ..< n - 1] st"

partial_function (option) sortLoop ::
  "SortOrder \<Rightarrow> bool \<Rightarrow> ('k \<Rightarrow> PliPart) \<Rightarrow> 'k list \<Rightarrow> bool \<Rightarrow> ('k list) option" where
  "sortLoop cfg setSplit parts sortedKeys asc =
     (case sortPass cfg setSplit parts (length sortedKeys) (sortedKeys, False, asc) of
        (keys', unsorted, asc') \<Rightarrow>
          if unsorted then sortLoop cfg setSplit parts keys' asc' else Some keys')"

definition sortParts ::
  "SortOrder \<Rightarrow> ('k \<Rightarrow> PliPart) \<Rightarrow> bool \<Rightarrow> 'k list \<Rightarrow> ('k list) option" where
  "sortParts cfg parts setSplit sortedKeys = sortLoop cfg setSplit parts sortedKeys True"

section \<open>Properties of the meta-command leaves\<close>

lemmas leaf_defs = tokenAt_def toInt_def isDigit_def digitVal_def Let_def
  setValue_def setHere_def valueOf_def updValue_def report_def

lemmas sample_defs = sampleEnv_def decimal_def newLeaf_def noWhere_def line7_def

text \<open>
  C10. \<^verbatim>\<open>BorderMeta::parse\<close> on a token list whose last token is \<^verbatim>\<open>NONE\<close>: the guard
  \<^verbatim>\<open>argv.size() - index >= 1\<close> holds, and the branch reads \<^verbatim>\<open>argv[index+1]\<close>, one past
  the end. The parse does not return a failure code: its result is the out-of-range
  read, both when the leaf is called directly and when the directive
  \<^verbatim>\<open>BORDER NONE\<close> reaches it through \<^verbatim>\<open>BranchMeta::parse\<close>.
\<close>

theorem border_none_reads_past_end:
  "BorderMeta_parse env [''NONE''] 0 here m = None \<and>
   parseNode env [''BORDER'', ''NONE''] 0 here None None
     (BranchNode p g [(''BORDER'', LeafNode (BorderLeaf m))]) = None"
  by (simp add: BorderMeta_parse_def parseLeaf_def Leaf_setFlags_def leaf_defs)

text \<open>
  C5. Parse atomicity fails for the border leaf: \<^verbatim>\<open>NONE x\<close> returns \<^verbatim>\<open>FailureRc\<close>, and
  the stored border type, \<^verbatim>\<open>BdrSquare\<close> before the call, is \<^verbatim>\<open>BdrNone\<close> after it.
\<close>

theorem border_failure_changes_value:
  "BorderMeta_parse sampleEnv [''NONE'', ''x''] 0 line7 squareBorder =
     Some (FailureRc, squareBorder\<lparr>value0 := (value0 squareBorder)\<lparr>bdType := BdrNone\<rparr>\<rparr>) \<and>
   bdType (value0 squareBorder) = BdrSquare \<and> \<not> pushed squareBorder"
  by (simp add: BorderMeta_parse_def BorderMeta_margins_def leaf_defs squareBorder_def
      newLeaf_def BorderData_init_def)

text \<open>
  C3. The round trip fails for the integer leaf: \<^verbatim>\<open>5\<close> parses to the value 5, the
  formatted text is the preamble alone (the same text as for the value 7), and its
  empty tail, which has no token, does not parse.
\<close>

theorem int_format_loses_value:
  "IntMeta_parse sampleEnv [''5''] 0 line7 sampleInt =
     Some (OkRc, sampleInt\<lparr>value0 := 5, here0 := line7\<rparr>) \<and>
   IntMeta_format False False (sampleInt\<lparr>value0 := 5, here0 := line7\<rparr>) = preamble sampleInt \<and>
   IntMeta_format False False (sampleInt\<lparr>value0 := 5, here0 := line7\<rparr>) =
     IntMeta_format False False (sampleInt\<lparr>value0 := 7, here0 := line7\<rparr>) \<and>
   IntMeta_parse sampleEnv [] 0 line7 (sampleInt\<lparr>value0 := 5, here0 := line7\<rparr>) =
     Some (FailureRc, sampleInt\<lparr>value0 := 5, here0 := line7\<rparr>)"
  by (simp add: IntMeta_parse_def IntMeta_format_def LeafMeta_format_def leaf_defs sampleInt_def
      newLeaf_def sampleEnv_def LeafMeta.defs IntMeta.defs)

text \<open>
  C4, as the claim states it: \<^verbatim>\<open>TOP LEFT PAGE INSIDE 0.1 0.2\<close> does not succeed. The
  parse returns \<^verbatim>\<open>FailureRc\<close> and the leaf is what it was.
\<close>

theorem placement_top_left_inside_fails:
  "PlacementMeta_parse sampleEnv [''TOP'', ''LEFT'', ''PAGE'', ''INSIDE'', ''0.1'', ''0.2''] 0
     line7 PlacementMeta_init = Some (FailureRc, PlacementMeta_init)"
  by (simp add: PlacementMeta_parse_def PlacementMeta_shape_def PlacementMeta_decode_def
      tokenAt_def relativeTos_def placementOptions_def NumSpots_def Let_def
      split: option.splits)

text \<open>
  C4, amended. The decode table has no row (\<^verbatim>\<open>TOP\<close>, \<^verbatim>\<open>LEFT\<close>, \<^verbatim>\<open>INSIDE\<close>), so
  \<^verbatim>\<open>TOP LEFT PAGE INSIDE 0.1 0.2\<close> is rejected with \<^verbatim>\<open>FailureRc\<close> and the leaf is
  unchanged. The same sequence with \<^verbatim>\<open>OUTSIDE\<close> succeeds: it decodes to the zone
  \<^verbatim>\<open>TopLeftOutside\<close>, the table row (Top, Left, Outside), relative to \<^verbatim>\<open>PageType\<close>,
  stores the two offsets that \<^verbatim>\<open>toFloat\<close> reads from \<^verbatim>\<open>0.1\<close> and \<^verbatim>\<open>0.2\<close>, and sets
  the location of the active slot.
\<close>

theorem placement_top_left_page:
  assumes "toFloat env ''0.1'' = Some a" and "toFloat env ''0.2'' = Some b"
  shows "PlacementMeta_parse env [''TOP'', ''LEFT'', ''PAGE'', ''INSIDE'', ''0.1'', ''0.2''] 0
           here m = Some (FailureRc, m) \<and>
         (''TOP'', ''LEFT'', ''INSIDE'') \<notin> set placementOptions \<and>
         (\<exists>m'. PlacementMeta_parse env
                  [''TOP'', ''LEFT'', ''PAGE'', ''OUTSIDE'', ''0.1'', ''0.2''] 0 here m =
                  Some (OkRc, m') \<and>
               valueOf m' =
                 \<lparr>placement = Top, justification = Left, relativeTo = PageType,
                  preposition = Outside, rectPlacement = TopLeftOutside,
                  offsets0 = a, offsets1 = b\<rparr> \<and>
               (if pushed m' then here1 m' else here0 m') = here)"
  using assms
  by (simp add: PlacementMeta_parse_def PlacementMeta_shape_def PlacementMeta_decode_def
      leaf_defs relativeTos_def placementOptions_def NumSpots_def PlacementMeta_setValue_def
      placementDecode_def rectPlacements_def tokenMap_def tokenMapEntries_def PageType_def
      split: option.splits)

theorem placement_top_left_page_witness:
  "\<exists>m'. PlacementMeta_parse sampleEnv
          [''TOP'', ''LEFT'', ''PAGE'', ''OUTSIDE'', ''0.1'', ''0.2''] 0 line7
          PlacementMeta_init = Some (OkRc, m') \<and>
        valueOf m' =
          \<lparr>placement = Top, justification = Left, relativeTo = PageType,
           preposition = Outside, rectPlacement = TopLeftOutside,
           offsets0 = 1 / 10, offsets1 = 1 / 5\<rparr> \<and>
        (if pushed m' then here1 m' else here0 m') = line7"
proof -
  have a: "toFloat sampleEnv ''0.1'' = Some (1 / 10)"
    by (simp add: sampleEnv_def decimal_def isDigit_def digitVal_def)
  have b: "toFloat sampleEnv ''0.2'' = Some (1 / 5)"
    by (simp add: sampleEnv_def decimal_def isDigit_def digitVal_def)
  from placement_top_left_page [OF a b, of line7 PlacementMeta_init] show ?thesis
    by blast
qed

subsection \<open>Scope: LOCAL and GLOBAL\<close>



lemma okKeeps_simps [simp]:
  "okKeeps m None" "okKeeps m (Some (rc, m')) = keeps m m'"
  by (simp_all add: okKeeps_def)



















lemma okPlain_simps [simp]:
  "okPlain h m None" 
  "okPlain h m (Some (rc, m')) =
     (pushed m' = pushed m \<and> global m' = global m \<and>
      (rc \<noteq> FailureRc \<longrightarrow> here0 m' = h \<and> here1 m' = h))"
  by (simp_all add: okPlain_def)





































































lemmas float_eval = parseLeaf_def Leaf_setFlags_def setFlags_def FloatMeta_parse_def tokenAt_def
    Let_def setValue_def setHere_def sampleFloat_def newLeaf_def sampleEnv_def decimal_def
    isDigit_def digitVal_def LeafMeta.defs FloatMeta.defs








text \<open>
  Outside the hypothesis of the amended statement, the two paths of
  \<^verbatim>\<open>BranchMeta::parse\<close> differ. The exact-match path only sets \<open>global\<close> for a \<^verbatim>\<open>GLOBAL\<close>
  marker: on a leaf that an earlier \<^verbatim>\<open>LOCAL\<close> has pushed, \<^verbatim>\<open>MODEL_SCALE GLOBAL 0.75\<close>
  stores 0.75 in slot 1 and slot 0 still holds 0. The regular-expression path assigns
  both flags, so \<^verbatim>\<open>GLOBAL\<close> clears \<open>pushed\<close> there and the value goes to slot 0.
\<close>

lemma global_after_local_keeps_default:
  "parseNode sampleEnv [''MODEL_SCALE'', ''LOCAL'', ''0.5''] 0 line7 None None
     (BranchNode False False [(''MODEL_SCALE'', LeafNode (FloatLeaf sampleFloat))]) =
     Some (OkRc, BranchNode False False
       [(''MODEL_SCALE'',
         LeafNode (FloatLeaf (sampleFloat\<lparr>pushed := True, value1 := 1 / 2, here1 := line7\<rparr>)))]) \<and>
   parseNode sampleEnv [''MODEL_SCALE'', ''GLOBAL'', ''0.75''] 0 line7 None None
     (BranchNode False False
       [(''MODEL_SCALE'',
         LeafNode (FloatLeaf (sampleFloat\<lparr>pushed := True, value1 := 1 / 2, here1 := line7\<rparr>)))]) =
     Some (OkRc, BranchNode False False
       [(''MODEL_SCALE'',
         LeafNode (FloatLeaf (sampleFloat\<lparr>pushed := True, global := True, value1 := 3 / 4,
                                          here1 := line7\<rparr>)))]) \<and>
   value0 (sampleFloat\<lparr>pushed := True, global := True, value1 := 3 / 4, here1 := line7\<rparr>) = 0"
  by (simp add: float_eval)



lemma regex_global_clears_pushed:
  "parseNode sampleEnv [''GLOBAL'', ''TRUE''] 0 line7 None None
     (BranchNode False False
        [(''TRUE'', LeafNode (BoolLeaf ((newLeaf ''0 !LPUB PLI SHOW '' False False)
                                          \<lparr>pushed := True\<rparr>)))]) =
     Some (OkRc, BranchNode False False
        [(''TRUE'', LeafNode (BoolLeaf ((newLeaf ''0 !LPUB PLI SHOW '' False False)
                                          \<lparr>pushed := False, global := True, value0 := True,
                                           here0 := line7\<rparr>)))])"
  by (simp add: parseLeaf_def Leaf_setFlags_def setFlags_def BoolMeta_parse_def tokenAt_def
      Let_def setValue_def setHere_def newLeaf_def sampleEnv_def isSubstring_def)

end
